theory Spec2Isabelle
  imports Complex_Main
begin

section \<open>TESS pixel response function retrieval\<close>

text \<open>
  A shallow embedding of the PRF retrieval functions of the notebook
  \<^verbatim>\<open>notebooks/MAST/TESS/interm_tess_prf_retrieve/interm_tess_prf_retrieve.ipynb\<close>.

  Python integers are \<open>int\<close>, Python and numpy floats are \<open>real\<close> (exact
  arithmetic: rounding errors, infinities and NaN of IEEE doubles are outside the
  model), a raised exception is the \<open>Inl\<close> branch of a sum.
\<close>

subsection \<open>Exceptions\<close>

datatype error =
    ValueError string
  | AssertionError
  | IndexError
  | OSError string

definition ebind :: "error + 'a \<Rightarrow> ('a \<Rightarrow> error + 'b) \<Rightarrow> error + 'b" where
  "ebind m f = (case m of Inl e \<Rightarrow> Inl e | Inr x \<Rightarrow> f x)"

subsection \<open>pathLookup\<close>

text \<open>
  \<^verbatim>\<open>
  def pathLookup(ccd, camera, sector):
      if sector < 1:
          raise ValueError("Sector must be greater than 0.")
      if (camera > 4) | (ccd > 4):
          raise ValueError("Camera or CCD is larger than 4.")
      if sector <= 3:
          add_path = "/start_s0001/"
          datestring = "2018243163600"
          if camera >= 3:
              datestring = "2018243163601"
          elif (camera == 2) & (ccd == 4):
              datestring = "2018243163601"
      else:
          add_path = "/start_s0004/"
          datestring = "2019107181900"
          if (camera == 1) & (ccd >= 2):
              datestring = "2019107181901"
          elif (camera == 2):
              datestring = "2019107181901"
          elif (camera == 3) & (ccd >= 2) :
              datestring = "2019107181902"
          elif (camera == 4):
              datestring = "2019107181902"
      return datestring, add_path
  \<close>
\<close>

definition pathLookup :: "int \<Rightarrow> int \<Rightarrow> int \<Rightarrow> error + (string \<times> string)" where
  "pathLookup ccd camera sector =
     (if sector < 1 then Inl (ValueError ''Sector must be greater than 0.'')
      else if camera > 4 \<or> ccd > 4 then Inl (ValueError ''Camera or CCD is larger than 4.'')
      else if sector \<le> 3 then
        (let add_path = ''/start_s0001/'';
             datestring = ''2018243163600'';
             datestring =
               (if camera \<ge> 3 then ''2018243163601''
                else if camera = 2 \<and> ccd = 4 then ''2018243163601''
                else datestring)
         in Inr (datestring, add_path))
      else
        (let add_path = ''/start_s0004/'';
             datestring = ''2019107181900'';
             datestring =
               (if camera = 1 \<and> ccd \<ge> 2 then ''2019107181901''
                else if camera = 2 then ''2019107181901''
                else if camera = 3 \<and> ccd \<ge> 2 then ''2019107181902''
                else if camera = 4 then ''2019107181902''
                else datestring)
         in Inr (datestring, add_path)))"

subsection \<open>getOffsetsFromPixelFractions\<close>

text \<open>
  \<^verbatim>\<open>np.remainder(x, 1)\<close> is the floored remainder \<open>x - \<lfloor>x\<rfloor>\<close>;
  \<^verbatim>\<open>np.round\<close> rounds to the nearest integer, a half to the even neighbour.
\<close>

definition np_remainder1 :: "real \<Rightarrow> real" where
  "np_remainder1 x = x - of_int \<lfloor>x\<rfloor>"

definition np_round :: "real \<Rightarrow> int" where
  "np_round x =
     (let f = \<lfloor>x\<rfloor>; d = x - of_int f
      in if d < 1 / 2 then f
         else if 1 / 2 < d then f + 1
         else if even f then f else f + 1)"

text \<open>
  \<^verbatim>\<open>
  def getOffsetsFromPixelFractions(col, row):
      gridSize = 9
      colFrac = np.remainder(float(col), 1)
      rowFrac = np.remainder(float(row), 1)
      colOffset = gridSize - np.round(gridSize * colFrac) - 1
      rowOffset = gridSize - np.round(gridSize * rowFrac) - 1
      return int(colOffset), int(rowOffset)
  \<close>
\<close>

definition getOffsetsFromPixelFractions :: "real \<Rightarrow> real \<Rightarrow> int \<times> int" where
  "getOffsetsFromPixelFractions col row =
     (let gridSize = (9::int);
          colFrac = np_remainder1 col;
          rowFrac = np_remainder1 row;
          colOffset = gridSize - np_round (of_int gridSize * colFrac) - 1;
          rowOffset = gridSize - np_round (of_int gridSize * rowFrac) - 1
      in (colOffset, rowOffset))"

subsection \<open>Two-dimensional numpy arrays\<close>

text \<open>
  A two-dimensional \<^verbatim>\<open>ndarray\<close>: its shape and its rows. The element type is a
  parameter, so a function that is polymorphic in it cannot compute on the elements.
\<close>

record 'a ndarray =
  shape0 :: nat
  shape1 :: nat
  cells :: "'a list list"

definition wf_ndarray :: "'a ndarray \<Rightarrow> bool" where
  "wf_ndarray a \<longleftrightarrow>
     length (cells a) = shape0 a \<and> list_all (\<lambda>r. length r = shape1 a) (cells a)"

text \<open>
  An index into an axis of size \<open>n\<close>: a negative index counts from the end, an index
  outside \<open>[-n, n)\<close> raises IndexError (\<open>None\<close> here).
\<close>

definition np_index :: "nat \<Rightarrow> int \<Rightarrow> nat option" where
  "np_index n i =
     (if 0 \<le> i \<and> i < int n then Some (nat i)
      else if - int n \<le> i \<and> i < 0 then Some (nat (i + int n))
      else None)"

text \<open>\<^verbatim>\<open>a[idx, :]\<close> with an integer index array \<open>idx\<close>.\<close>

definition index_rows :: "'a ndarray \<Rightarrow> int list \<Rightarrow> error + 'a ndarray" where
  "index_rows a idx =
     (case those (map (np_index (shape0 a)) idx) of
        None \<Rightarrow> Inl IndexError
      | Some ks \<Rightarrow>
          Inr \<lparr>shape0 = length ks, shape1 = shape1 a, cells = map (\<lambda>k. cells a ! k) ks\<rparr>)"

text \<open>\<^verbatim>\<open>a[:, idx]\<close> with an integer index array \<open>idx\<close>.\<close>

definition index_cols :: "'a ndarray \<Rightarrow> int list \<Rightarrow> error + 'a ndarray" where
  "index_cols a idx =
     (case those (map (np_index (shape1 a)) idx) of
        None \<Rightarrow> Inl IndexError
      | Some ks \<Rightarrow>
          Inr \<lparr>shape0 = shape0 a, shape1 = length ks,
               cells = map (\<lambda>r. map (\<lambda>k. r ! k) ks) (cells a)\<rparr>)"

text \<open>
  \<^verbatim>\<open>np.arange(x)\<close> for a float \<open>x\<close> is \<open>0.0, 1.0, ...\<close> with \<open>\<lceil>x\<rceil>\<close> elements
  (none when \<open>x \<le> 0\<close>).
\<close>

definition np_arange :: "real \<Rightarrow> nat list" where
  "np_arange x = [0 ..< nat \<lceil>x\<rceil>]"

subsection \<open>getRegSampledPrfFitsByOffset\<close>

text \<open>
  \<^verbatim>\<open>
  def getRegSampledPrfFitsByOffset(prfArray, colOffset, rowOffset):
      gridSize = 9
      assert colOffset < gridSize
      assert rowOffset < gridSize
      # Number of pixels in regularly sampled PRF. Should be 13x13
      nColOut, nRowOut = prfArray.shape
      nColOut /= float(gridSize)
      nRowOut /= float(gridSize)
      iCol = colOffset + (np.arange(nColOut) * gridSize).astype(np.int)
      iRow = rowOffset + (np.arange(nRowOut) * gridSize).astype(np.int)
      tmp = prfArray[iRow, :]
      prf = tmp[:,iCol]
      return prf
  \<close>
  As in the source, \<open>nColOut\<close> is taken from the first component of the shape (the
  number of rows) and \<open>nRowOut\<close> from the second.
\<close>

definition getRegSampledPrfFitsByOffset ::
  "'a ndarray \<Rightarrow> int \<Rightarrow> int \<Rightarrow> error + 'a ndarray" where
  "getRegSampledPrfFitsByOffset prfArray colOffset rowOffset =
     (let gridSize = (9::int) in
      if \<not> colOffset < gridSize then Inl AssertionError
      else if \<not> rowOffset < gridSize then Inl AssertionError
      else
        (let nColOut = real (shape0 prfArray) / real_of_int gridSize;
             nRowOut = real (shape1 prfArray) / real_of_int gridSize;
             iCol = map (\<lambda>k. colOffset + int k * gridSize) (np_arange nColOut);
             iRow = map (\<lambda>k. rowOffset + int k * gridSize) (np_arange nRowOut)
         in ebind (index_rows prfArray iRow) (\<lambda>tmp. index_cols tmp iCol)))"

subsection \<open>determineFourClosestPrfLoc\<close>

text \<open>
  \<^verbatim>\<open>np.argsort\<close> of a short array is an insertion sort of the indices, which keeps
  equal keys in index order; \<open>sort_key\<close> is that sort.
\<close>

definition np_argsort :: "real list \<Rightarrow> nat list" where
  "np_argsort ds = sort_key (\<lambda>i. ds ! i) [0 ..< length ds]"

definition posRows :: "int list" where
  "posRows = [1, 513, 1025, 1536, 2048]"

definition posCols :: "int list" where
  "posCols = [45, 557, 1069, 1580, 2092]"

text \<open>
  \<^verbatim>\<open>
  def determineFourClosestPrfLoc(col, row):
      posRows = np.array([1, 513, 1025, 1536, 2048])
      posCols = np.array([45, 557, 1069, 1580,2092])
      difcol = np.abs(posCols - col)
      difrow = np.abs(posRows - row)
      imagePos = []
      for r in posRows[np.argsort(difrow)[0:2]]:
          for c in posCols[np.argsort(difcol)[0:2]]:
              imagePos.append((c,r))
      return imagePos
  \<close>
\<close>

definition determineFourClosestPrfLoc :: "real \<Rightarrow> real \<Rightarrow> (int \<times> int) list" where
  "determineFourClosestPrfLoc col row =
     (let difcol = map (\<lambda>p. \<bar>real_of_int p - col\<bar>) posCols;
          difrow = map (\<lambda>p. \<bar>real_of_int p - row\<bar>) posRows
      in [(c, r).
            r \<leftarrow> map (\<lambda>i. posRows ! i) (take 2 (np_argsort difrow)),
            c \<leftarrow> map (\<lambda>i. posCols ! i) (take 2 (np_argsort difcol))])"

subsection \<open>interpolatePrf\<close>

text \<open>
  Element-wise arithmetic of two arrays broadcasts an axis of size one against the other
  operand's axis and raises ValueError when the axes differ otherwise.
\<close>

definition broadcast_dim :: "nat \<Rightarrow> nat \<Rightarrow> nat option" where
  "broadcast_dim m n =
     (if m = n then Some m else if m = 1 then Some n else if n = 1 then Some m else None)"

definition np_at :: "'a ndarray \<Rightarrow> nat \<Rightarrow> nat \<Rightarrow> 'a" where
  "np_at a i j =
     cells a ! (if shape0 a = 1 then 0 else i) ! (if shape1 a = 1 then 0 else j)"

definition np_binop ::
  "(real \<Rightarrow> real \<Rightarrow> real) \<Rightarrow> real ndarray \<Rightarrow> real ndarray \<Rightarrow> error + real ndarray" where
  "np_binop f a b =
     (case (broadcast_dim (shape0 a) (shape0 b), broadcast_dim (shape1 a) (shape1 b)) of
        (Some m, Some n) \<Rightarrow>
          Inr \<lparr>shape0 = m, shape1 = n,
               cells = map (\<lambda>i. map (\<lambda>j. f (np_at a i j) (np_at b i j)) [0 ..< n]) [0 ..< m]\<rparr>
      | _ \<Rightarrow> Inl (ValueError ''operands could not be broadcast together''))"

definition np_scale :: "real ndarray \<Rightarrow> real \<Rightarrow> real ndarray" where
  "np_scale a d = a\<lparr>cells := map (map (\<lambda>x. x * d)) (cells a)\<rparr>"

text \<open>
  \<^verbatim>\<open>
  def interpolatePrf(regPrfArray, col, row, imagePos):
      p11, p21, p12, p22 = regPrfArray
      c0 = imagePos[0][0]
      c1 = imagePos[1][0]
      r0 = imagePos[0][1]
      r1 = imagePos[2][1]
      assert c0 != c1
      assert r0 != r1
      dCol = (col-c0) / (c1-c0)
      dRow = (row-r0) / (r1 - r0)
      # Intpolate across the rows
      tmp1 = p11 + (p21 - p11) * dCol
      tmp2 = p12 + (p22 - p12) * dCol
      # Interpolate across the columns
      out = tmp1 + (tmp2-tmp1) * dRow
      return out
  \<close>
\<close>

definition interpolatePrf ::
  "real ndarray list \<Rightarrow> real \<Rightarrow> real \<Rightarrow> (real \<times> real) list \<Rightarrow> error + real ndarray" where
  "interpolatePrf regPrfArray col row imagePos =
     (if length regPrfArray < 4 then Inl (ValueError ''not enough values to unpack'')
      else if 4 < length regPrfArray then Inl (ValueError ''too many values to unpack'')
      else
        (let p11 = regPrfArray ! 0;
             p21 = regPrfArray ! 1;
             p12 = regPrfArray ! 2;
             p22 = regPrfArray ! 3
         in if length imagePos < 3 then Inl IndexError
            else
              (let c0 = fst (imagePos ! 0);
                   c1 = fst (imagePos ! 1);
                   r0 = snd (imagePos ! 0);
                   r1 = snd (imagePos ! 2)
               in if \<not> c0 \<noteq> c1 then Inl AssertionError
                  else if \<not> r0 \<noteq> r1 then Inl AssertionError
                  else
                    (let dCol = (col - c0) / (c1 - c0);
                         dRow = (row - r0) / (r1 - r0)
                     in ebind (np_binop (-) p21 p11) (\<lambda>d1.
                        ebind (np_binop (+) p11 (np_scale d1 dCol)) (\<lambda>tmp1.
                        ebind (np_binop (-) p22 p12) (\<lambda>d2.
                        ebind (np_binop (+) p12 (np_scale d2 dCol)) (\<lambda>tmp2.
                        ebind (np_binop (-) tmp2 tmp1) (\<lambda>d3.
                        np_binop (+) tmp1 (np_scale d3 dRow))))))))))"

subsection \<open>readOnePrfFitsFile\<close>








subsection \<open>The main functions\<close>




subsection \<open>Specification predicates\<close>

text \<open>
  The order of an ascending sort of the keys \<open>ds\<close> that breaks ties by the original
  index: index \<open>i\<close> comes before index \<open>k\<close>.
\<close>

definition key_before :: "real list \<Rightarrow> nat \<Rightarrow> nat \<Rightarrow> bool" where
  "key_before ds i k \<longleftrightarrow> ds ! i < ds ! k \<or> (ds ! i = ds ! k \<and> i < k)"

text \<open>
  Position \<open>i\<close> of \<open>ps\<close> is closer to \<open>x\<close> than position \<open>k\<close>: its absolute
  difference is smaller, or equal with \<open>i\<close> the earlier index.
\<close>

definition closer :: "int list \<Rightarrow> real \<Rightarrow> nat \<Rightarrow> nat \<Rightarrow> bool" where
  "closer ps x i k \<longleftrightarrow>
     \<bar>real_of_int (ps ! i) - x\<bar> < \<bar>real_of_int (ps ! k) - x\<bar>
     \<or> (\<bar>real_of_int (ps ! i) - x\<bar> = \<bar>real_of_int (ps ! k) - x\<bar> \<and> i < k)"

text \<open>
  \<open>i0\<close> and \<open>i1\<close> are the indices of the two positions of \<open>ps\<close> with the smallest
  absolute difference to \<open>x\<close>, in this order: \<open>i0\<close> is closer than every other
  position, \<open>i1\<close> is closer than every position but \<open>i0\<close>.
\<close>

definition two_closest :: "int list \<Rightarrow> real \<Rightarrow> nat \<Rightarrow> nat \<Rightarrow> bool" where
  "two_closest ps x i0 i1 \<longleftrightarrow>
     i0 < length ps \<and> i1 < length ps \<and> i0 \<noteq> i1
     \<and> (\<forall>k \<in> {0 ..< length ps}. k \<noteq> i0 \<longrightarrow> closer ps x i0 k)
     \<and> (\<forall>k \<in> {0 ..< length ps}. k \<noteq> i0 \<longrightarrow> k \<noteq> i1 \<longrightarrow> closer ps x i1 k)"

subsection \<open>Arrays and files for examples\<close>

text \<open>
  A test array: the \<open>r\<close> by \<open>c\<close> array whose entry in row \<open>i\<close> and column \<open>j\<close> is
  the pair \<open>(i, j)\<close>.
\<close>

definition index_grid :: "nat \<Rightarrow> nat \<Rightarrow> (nat \<times> nat) ndarray" where
  "index_grid r c =
     \<lparr>shape0 = r, shape1 = c, cells = map (\<lambda>i. map (\<lambda>j. (i, j)) [0 ..< c]) [0 ..< r]\<rparr>"

text \<open>The \<open>m\<close> by \<open>n\<close> array whose entry in row \<open>i\<close> and column \<open>j\<close> is \<open>g i j\<close>.\<close>

definition tabulate2 :: "nat \<Rightarrow> nat \<Rightarrow> (nat \<Rightarrow> nat \<Rightarrow> 'a) \<Rightarrow> 'a ndarray" where
  "tabulate2 m n g =
     \<lparr>shape0 = m, shape1 = n, cells = map (\<lambda>i. map (\<lambda>j. g i j) [0 ..< n]) [0 ..< m]\<rparr>"


section \<open>Properties\<close>

subsection \<open>Sub-pixel offsets\<close>

lemma np_remainder1_range: "0 \<le> np_remainder1 x \<and> np_remainder1 x < 1"
  unfolding np_remainder1_def by linarith



lemma np_round_range:
  assumes "0 \<le> x" and "x < 9"
  shows "0 \<le> np_round x \<and> np_round x \<le> 9"
proof -
  have "0 \<le> \<lfloor>x\<rfloor>" using assms by simp
  moreover have "\<lfloor>x\<rfloor> \<le> 8" using assms by (simp add: floor_le_iff)
  ultimately show ?thesis by (simp add: np_round_def Let_def)
qed

text \<open>
  What holds of the range for every input: both offsets lie between \<open>-1\<close> and \<open>8\<close>.
  The value \<open>-1\<close> is taken when the fraction rounds up to the whole grid size.
\<close>

lemma getOffsets_range:
  assumes "getOffsetsFromPixelFractions col row = (co, ro)"
  shows "- 1 \<le> co \<and> co \<le> 8 \<and> - 1 \<le> ro \<and> ro \<le> 8"
proof -
  have c: "0 \<le> 9 * np_remainder1 col \<and> 9 * np_remainder1 col < 9"
    using np_remainder1_range [of col] by simp
  have r: "0 \<le> 9 * np_remainder1 row \<and> 9 * np_remainder1 row < 9"
    using np_remainder1_range [of row] by simp
  from np_round_range [of "9 * np_remainder1 col"]
       np_round_range [of "9 * np_remainder1 row"] c r assms
  show ?thesis by (auto simp: getOffsetsFromPixelFractions_def)
qed


text \<open>
  C1, at the input that breaks it: for the column \<open>31/32\<close> (fraction \<open>0.96875\<close>,
  exact in binary floating point) nine times the fraction is \<open>8.71875\<close>, which rounds to
  \<open>9\<close>, and the column offset is \<open>9 - 9 - 1 = -1\<close>, outside \<open>[0, 8]\<close>.
\<close>

theorem getOffsets_negative_offset:
  "getOffsetsFromPixelFractions (31 / 32) 0 = (- 1, 8)"
  by (simp add: getOffsetsFromPixelFractions_def np_remainder1_def np_round_def Let_def)


subsection \<open>Detector identity\<close>

text \<open>The lookup raises exactly on the two conditions that it tests.\<close>

lemma pathLookup_fails_iff:
  "(\<exists>e. pathLookup ccd camera sector = Inl e) \<longleftrightarrow> sector < 1 \<or> camera > 4 \<or> ccd > 4"
  by (auto simp: pathLookup_def Let_def)

lemma pathLookup_accepts_valid:
  assumes "1 \<le> ccd" and "ccd \<le> 4" and "1 \<le> camera" and "camera \<le> 4" and "1 \<le> sector"
  shows "\<exists>datestring add_path. pathLookup ccd camera sector = Inr (datestring, add_path)"
  using assms by (simp add: pathLookup_def Let_def)

text \<open>
  C6, at an input that breaks it: camera \<open>0\<close> is outside \<open>[1, 4]\<close>, and the lookup
  returns the date string and directory of the first sectors instead of raising.
\<close>

theorem pathLookup_camera_zero:
  "pathLookup 1 0 1 = Inr (''2018243163600'', ''/start_s0001/'')"
  by (simp add: pathLookup_def)

subsection \<open>Interpolation\<close>

text \<open>
  C10: the result of \<open>interpolatePrf\<close> depends on the grid points only through the
  column of the first and second and the row of the first and third: two lists of grid
  points that agree on these four numbers give the same result for the same images,
  column and row. The fourth grid point, the row of the second and the column of the
  third are never read.
\<close>

theorem interpolatePrf_ignores_fourth:
  assumes "3 \<le> length ip" and "3 \<le> length ip'"
    and "fst (ip ! 0) = fst (ip' ! 0)" and "fst (ip ! 1) = fst (ip' ! 1)"
    and "snd (ip ! 0) = snd (ip' ! 0)" and "snd (ip ! 2) = snd (ip' ! 2)"
  shows "interpolatePrf imgs col row ip = interpolatePrf imgs col row ip'"
  using assms by (simp add: interpolatePrf_def)

theorem interpolatePrf_ignores_fourth_witness:
  "interpolatePrf
     [\<lparr>shape0 = 1, shape1 = 1, cells = [[1]]\<rparr>, \<lparr>shape0 = 1, shape1 = 1, cells = [[2]]\<rparr>,
      \<lparr>shape0 = 1, shape1 = 1, cells = [[3]]\<rparr>, \<lparr>shape0 = 1, shape1 = 1, cells = [[4]]\<rparr>]
     (1 / 2) (1 / 4) [(0, 0), (1, 0), (0, 1), (1, 1)]
   = interpolatePrf
     [\<lparr>shape0 = 1, shape1 = 1, cells = [[1]]\<rparr>, \<lparr>shape0 = 1, shape1 = 1, cells = [[2]]\<rparr>,
      \<lparr>shape0 = 1, shape1 = 1, cells = [[3]]\<rparr>, \<lparr>shape0 = 1, shape1 = 1, cells = [[4]]\<rparr>]
     (1 / 2) (1 / 4) [(0, 0), (1, 7), (5, 1), (9, 9)]"
  using interpolatePrf_ignores_fourth
    [of "[(0, 0), (1, 0), (0, 1), (1, 1)]" "[(0, 0), (1, 7), (5, 1), (9, 9)]"]
  by simp

subsection \<open>The four closest grid points\<close>

text \<open>
  Inserting an index that is smaller than all indices of a list sorted by key and then
  by index keeps that order: the insertion sort of the indices in ascending order is
  stable.
\<close>

lemma insort_key_before:
  assumes "sorted_wrt (\<lambda>i k. f i < f k \<or> (f i = f k \<and> i < k)) ys"
    and "\<forall>y \<in> set ys. x < y"
  shows "sorted_wrt (\<lambda>i k. f i < f k \<or> (f i = f k \<and> i < k)) (insort_key f x ys)"
  using assms
proof (induction ys)
  case Nil
  then show ?case by simp
next
  case (Cons y ys)
  show ?case
  proof (cases "f x \<le> f y")
    case True
    have "\<forall>z \<in> set ys. f y \<le> f z" using Cons.prems(1) by auto
    with True Cons.prems show ?thesis by (auto simp: less_le) 
  next
    case False
    with Cons show ?thesis by (auto simp: set_insort_key)
  qed
qed

lemma sort_key_before:
  fixes f :: "nat \<Rightarrow> real"
  assumes "sorted_wrt (<) xs"
  shows "sorted_wrt (\<lambda>i k. f i < f k \<or> (f i = f k \<and> i < k)) (sort_key f xs)"
  using assms
proof (induction xs)
  case Nil
  then show ?case by simp
next
  case (Cons x xs)
  then show ?case by (simp add: insort_key_before)
qed

lemma np_argsort_before: "sorted_wrt (key_before ds) (np_argsort ds)"
proof -
  have "sorted_wrt (<) [0 ..< length ds]" by simp
  from sort_key_before [OF this, of "\<lambda>i. ds ! i"]
  show ?thesis by (simp add: np_argsort_def key_before_def [abs_def])
qed

lemma np_argsort_set: "set (np_argsort ds) = {0 ..< length ds}"
  by (simp add: np_argsort_def)

lemma np_argsort_distinct: "distinct (np_argsort ds)"
  by (simp add: np_argsort_def)

lemma np_argsort_length: "length (np_argsort ds) = length ds"
  by (simp add: np_argsort_def)

text \<open>The first two indices of the sort of at least two keys.\<close>

lemma np_argsort_take2:
  assumes "2 \<le> length ds"
  shows "\<exists>i0 i1. take 2 (np_argsort ds) = [i0, i1]
           \<and> i0 < length ds \<and> i1 < length ds \<and> i0 \<noteq> i1
           \<and> (\<forall>k \<in> {0 ..< length ds}. k \<noteq> i0 \<longrightarrow> key_before ds i0 k)
           \<and> (\<forall>k \<in> {0 ..< length ds}. k \<noteq> i0 \<longrightarrow> k \<noteq> i1 \<longrightarrow> key_before ds i1 k)"
proof -
  have len: "2 \<le> length (np_argsort ds)" using assms by (simp add: np_argsort_length)
  then obtain i0 xs where s0: "np_argsort ds = i0 # xs"
    by (cases "np_argsort ds") simp_all
  with len obtain i1 rest where s1: "xs = i1 # rest"
    by (cases xs) simp_all
  have s: "np_argsort ds = i0 # i1 # rest" using s0 s1 by simp
  have mem: "k \<in> set (np_argsort ds) \<longleftrightarrow> k < length ds" for k
    by (simp add: np_argsort_set)
  have dst: "distinct (i0 # i1 # rest)" using np_argsort_distinct [of ds] s by simp
  have so: "sorted_wrt (key_before ds) (i0 # i1 # rest)"
    using np_argsort_before [of ds] s by simp
  have a0: "i0 < length ds" using mem [of i0] s by simp
  have a1: "i1 < length ds" using mem [of i1] s by simp
  have b: "i0 \<noteq> i1" using dst by simp
  have c: "key_before ds i0 k" if "k \<in> {0 ..< length ds}" "k \<noteq> i0" for k
  proof -
    from that mem [of k] s have "k \<in> set (i1 # rest)" by simp
    with so show ?thesis by simp blast
  qed
  have d: "key_before ds i1 k" if "k \<in> {0 ..< length ds}" "k \<noteq> i0" "k \<noteq> i1" for k
  proof -
    from that mem [of k] s have "k \<in> set rest" by simp
    with so show ?thesis by simp
  qed
  have t: "take 2 (np_argsort ds) = [i0, i1]" using s by simp
  show ?thesis
    using t a0 a1 b c d by blast
qed

lemma two_closest_argsort:
  assumes "2 \<le> length ps"
  shows "\<exists>i0 i1. take 2 (np_argsort (map (\<lambda>p. \<bar>real_of_int p - x\<bar>) ps)) = [i0, i1]
           \<and> two_closest ps x i0 i1"
proof -
  let ?ds = "map (\<lambda>p. \<bar>real_of_int p - x\<bar>) ps"
  have kb: "key_before ?ds i k = closer ps x i k" if "i < length ps" "k < length ps" for i k
    using that by (simp add: key_before_def closer_def)
  from assms np_argsort_take2 [of ?ds] obtain i0 i1 where
    h: "take 2 (np_argsort ?ds) = [i0, i1]" "i0 < length ps" "i1 < length ps" "i0 \<noteq> i1"
       "\<forall>k \<in> {0 ..< length ps}. k \<noteq> i0 \<longrightarrow> key_before ?ds i0 k"
       "\<forall>k \<in> {0 ..< length ps}. k \<noteq> i0 \<longrightarrow> k \<noteq> i1 \<longrightarrow> key_before ?ds i1 k"
    by auto
  have "two_closest ps x i0 i1"
    unfolding two_closest_def using h kb by auto
  with h(1) show ?thesis by blast
qed



lemma determineFour_struct:
  "\<exists>i0 i1 j0 j1.
     two_closest posCols col i0 i1 \<and> two_closest posRows row j0 j1
     \<and> determineFourClosestPrfLoc col row =
         [(posCols ! i0, posRows ! j0), (posCols ! i1, posRows ! j0),
          (posCols ! i0, posRows ! j1), (posCols ! i1, posRows ! j1)]"
proof -
  have "2 \<le> length posCols" "2 \<le> length posRows" by (simp_all add: posCols_def posRows_def)
  from two_closest_argsort [OF this(1), of col] two_closest_argsort [OF this(2), of row]
  obtain i0 i1 j0 j1 where
    "take 2 (np_argsort (map (\<lambda>p. \<bar>real_of_int p - col\<bar>) posCols)) = [i0, i1]"
    "two_closest posCols col i0 i1"
    "take 2 (np_argsort (map (\<lambda>p. \<bar>real_of_int p - row\<bar>) posRows)) = [j0, j1]"
    "two_closest posRows row j0 j1"
    by blast
  then show ?thesis
    by (auto simp: determineFourClosestPrfLoc_def)
qed



lemma posCols_distinct: "distinct posCols"
  by (simp add: posCols_def)

lemma posRows_distinct: "distinct posRows"
  by (simp add: posRows_def)

lemma two_closest_positions_differ:
  assumes "distinct ps" and "two_closest ps x i0 i1"
  shows "ps ! i0 \<noteq> ps ! i1"
  using assms by (auto simp: two_closest_def nth_eq_iff_index_eq)

lemma determineFour_distinct:
  "length (determineFourClosestPrfLoc col row) = 4
   \<and> fst (determineFourClosestPrfLoc col row ! 0) \<noteq> fst (determineFourClosestPrfLoc col row ! 1)
   \<and> snd (determineFourClosestPrfLoc col row ! 0) \<noteq> snd (determineFourClosestPrfLoc col row ! 2)"
proof -
  from determineFour_struct [of col row] obtain i0 i1 j0 j1 where
    h: "two_closest posCols col i0 i1" "two_closest posRows row j0 j1"
       "determineFourClosestPrfLoc col row =
         [(posCols ! i0, posRows ! j0), (posCols ! i1, posRows ! j0),
          (posCols ! i0, posRows ! j1), (posCols ! i1, posRows ! j1)]"
    by blast
  from two_closest_positions_differ [OF posCols_distinct h(1)]
       two_closest_positions_differ [OF posRows_distinct h(2)] h(3)
  show ?thesis by simp
qed

lemma np_binop_not_assert: "np_binop f a b \<noteq> Inl AssertionError"
  by (simp add: np_binop_def split: option.splits)

lemma ebind_eq_Inl:
  "ebind m f = Inl e \<longleftrightarrow> m = Inl e \<or> (\<exists>x. m = Inr x \<and> f x = Inl e)"
  by (cases m) (simp_all add: ebind_def)

lemma interpolatePrf_AssertionError:
  assumes "interpolatePrf imgs col row ip = Inl AssertionError"
  shows "fst (ip ! 0) = fst (ip ! 1) \<or> snd (ip ! 0) = snd (ip ! 2)"
proof (rule ccontr)
  assume n: "\<not> (fst (ip ! 0) = fst (ip ! 1) \<or> snd (ip ! 0) = snd (ip ! 2))"
  with assms show False
    by (simp add: interpolatePrf_def Let_def ebind_eq_Inl np_binop_not_assert
             split: if_splits)
qed

text \<open>
  C8: for every real column and row, the first and second of the four grid points differ
  in their column and the first and third differ in their row, so \<open>interpolatePrf\<close> on
  these grid points never fails one of its two assertions, whatever the images.
\<close>

theorem determineFour_never_degenerate:
  "fst (determineFourClosestPrfLoc col row ! 0) \<noteq> fst (determineFourClosestPrfLoc col row ! 1)
   \<and> snd (determineFourClosestPrfLoc col row ! 0) \<noteq> snd (determineFourClosestPrfLoc col row ! 2)
   \<and> interpolatePrf imgs col row
        (map (\<lambda>(c, r). (real_of_int c, real_of_int r)) (determineFourClosestPrfLoc col row))
      \<noteq> Inl AssertionError"
proof -
  let ?ps = "determineFourClosestPrfLoc col row"
  let ?ip = "map (\<lambda>(c, r). (real_of_int c, real_of_int r)) ?ps"
  from determineFour_distinct [of col row]
  have d: "length ?ps = 4" "fst (?ps ! 0) \<noteq> fst (?ps ! 1)" "snd (?ps ! 0) \<noteq> snd (?ps ! 2)"
    by simp_all
  have "fst (?ip ! 0) \<noteq> fst (?ip ! 1)" "snd (?ip ! 0) \<noteq> snd (?ip ! 2)"
    using d by (simp_all add: case_prod_unfold)
  with interpolatePrf_AssertionError [of imgs col row ?ip]
  have "interpolatePrf imgs col row ?ip \<noteq> Inl AssertionError" by blast
  with d show ?thesis by simp
qed

subsection \<open>Extraction of the regularly sampled image\<close>

lemma those_map:
  "those (map f xs) =
     (if \<forall>x \<in> set xs. f x \<noteq> None then Some (map (\<lambda>x. the (f x)) xs) else None)"
  by (induction xs) (auto split: option.splits)

lemma np_index_strided:
  "np_index n (int c + int k * 9) = (if c + k * 9 < n then Some (c + k * 9) else None)"
  by (auto simp: np_index_def nat_add_distrib nat_mult_distrib)

lemma index_rows_strided:
  "index_rows a (map (\<lambda>k. int c + int k * 9) [0 ..< m]) =
     (if \<forall>k < m. c + k * 9 < shape0 a
      then Inr \<lparr>shape0 = m, shape1 = shape1 a,
                cells = map (\<lambda>k. cells a ! (c + k * 9)) [0 ..< m]\<rparr>
      else Inl IndexError)"
  by (auto simp: index_rows_def those_map np_index_strided comp_def)

lemma index_cols_strided:
  "index_cols a (map (\<lambda>k. int c + int k * 9) [0 ..< m]) =
     (if \<forall>k < m. c + k * 9 < shape1 a
      then Inr \<lparr>shape0 = shape0 a, shape1 = m,
                cells = map (\<lambda>r. map (\<lambda>k. r ! (c + k * 9)) [0 ..< m]) (cells a)\<rparr>
      else Inl IndexError)"
  by (auto simp: index_cols_def those_map np_index_strided comp_def)

lemma np_arange_ninth: "np_arange (real n / 9) = [0 ..< (n + 8) div 9]"
proof -
  define m where "m = (n + 8) div 9"
  have a: "9 * m < n + 9" unfolding m_def by presburger
  have b: "n \<le> 9 * m" unfolding m_def by presburger
  from a have "real (9 * m) < real (n + 9)" by (simp only: of_nat_less_iff)
  then have lo: "real_of_int (int m) - 1 < real n / 9" by simp
  from b have "real n \<le> real (9 * m)" by (simp only: of_nat_le_iff)
  then have hi: "real n / 9 \<le> real_of_int (int m)" by simp
  have "\<lceil>real n / 9\<rceil> = int m" using lo hi by (rule ceiling_unique)
  then show ?thesis by (simp add: np_arange_def m_def)
qed



lemma getReg_strided:
  assumes "c < 9" and "r < 9"
  shows "getRegSampledPrfFitsByOffset a (int c) (int r) =
     (if (\<forall>k < (shape1 a + 8) div 9. r + k * 9 < shape0 a)
         \<and> (\<forall>k < (shape0 a + 8) div 9. c + k * 9 < shape1 a)
      then Inr \<lparr>shape0 = (shape1 a + 8) div 9, shape1 = (shape0 a + 8) div 9,
                cells = map (\<lambda>i. map (\<lambda>j. cells a ! (r + i * 9) ! (c + j * 9))
                                   [0 ..< (shape0 a + 8) div 9])
                            [0 ..< (shape1 a + 8) div 9]\<rparr>
      else Inl IndexError)"
  using assms
  by (simp add: getRegSampledPrfFitsByOffset_def np_arange_ninth index_rows_strided
        index_cols_strided ebind_def comp_def)

lemma wf_index_grid: "wf_ndarray (index_grid r c)"
  by (simp add: wf_ndarray_def index_grid_def list_all_iff)

text \<open>
  C2: for a square array of side \<open>9 * N\<close> and offsets in \<open>[0, 9)\<close>,
  \<open>getRegSampledPrfFitsByOffset\<close> returns an \<open>N\<close> by \<open>N\<close> image whose entry \<open>(i, j)\<close>
  is the entry \<open>(rowOffset + 9 * i, colOffset + 9 * j)\<close> of the array. The function is
  polymorphic in the element type: the entries are copied, not computed.
\<close>

theorem getReg_strided_samples:
  assumes "wf_ndarray a" and "shape0 a = 9 * N" and "shape1 a = 9 * N"
    and "0 \<le> colOffset" and "colOffset < 9" and "0 \<le> rowOffset" and "rowOffset < 9"
  shows "\<exists>img. getRegSampledPrfFitsByOffset a colOffset rowOffset = Inr img
           \<and> wf_ndarray img \<and> shape0 img = N \<and> shape1 img = N
           \<and> (\<forall>i < N. \<forall>j < N.
                 cells img ! i ! j = cells a ! (nat rowOffset + i * 9) ! (nat colOffset + j * 9))"
proof -
  define c r where "c = nat colOffset" and "r = nat rowOffset"
  have cr: "colOffset = int c" "rowOffset = int r" "c < 9" "r < 9"
    using assms by (simp_all add: c_def r_def)
  have n: "(9 * N + 8) div 9 = N" by simp
  have inr: "r + k * 9 < 9 * N" "c + k * 9 < 9 * N" if "k < N" for k
    using that cr by simp_all
  let ?img = "\<lparr>shape0 = N, shape1 = N,
                cells = map (\<lambda>i. map (\<lambda>j. cells a ! (r + i * 9) ! (c + j * 9)) [0 ..< N])
                            [0 ..< N]\<rparr>"
  have "getRegSampledPrfFitsByOffset a colOffset rowOffset = Inr ?img"
    using getReg_strided [OF cr(3) cr(4), of a] inr by (simp add: cr assms n)
  moreover have "wf_ndarray ?img" by (simp add: wf_ndarray_def list_all_iff)
  ultimately show ?thesis by (simp add: c_def r_def)
qed

theorem getReg_strided_samples_witness:
  "wf_ndarray (index_grid 18 18)
   \<and> (\<exists>img. getRegSampledPrfFitsByOffset (index_grid 18 18) 3 5 = Inr img
         \<and> wf_ndarray img \<and> shape0 img = 2 \<and> shape1 img = 2
         \<and> (\<forall>i < 2. \<forall>j < 2.
               cells img ! i ! j
                 = cells (index_grid 18 18) ! (nat 5 + i * 9) ! (nat 3 + j * 9)))"
proof -
  have wf: "wf_ndarray (index_grid 18 18)" by (rule wf_index_grid)
  have s: "shape0 (index_grid 18 18) = 9 * 2" "shape1 (index_grid 18 18) = 9 * 2"
    by (simp_all add: index_grid_def)
  from getReg_strided_samples [OF wf s, of 3 5] wf show ?thesis by simp
qed









subsection \<open>Interpolation at the corners\<close>

lemma tabulate2_shape [simp]:
  "shape0 (tabulate2 m n g) = m" "shape1 (tabulate2 m n g) = n"
  by (simp_all add: tabulate2_def)














subsection \<open>Nearest and interpolated lookup at a grid point\<close>






end
